theory Spec2Isabelle
  imports Main "HOL-Library.Monad_Syntax"
begin

section \<open>JavaScript values\<close>

text \<open>
  The failure objects that \<^verbatim>\<open>gp-error-filter.js\<close> inspects are duck-typed: the
  script only reads data properties of whatever was thrown. A value is modelled as plain
  data: the two nullish values, booleans, integer numbers (line numbers, codes), strings,
  arrays, and objects as the list of their own properties. \<open>Obj\<close> is an object whose
  prototype is \<^verbatim>\<open>Object.prototype\<close>; \<open>ErrorObj name ps\<close> is an instance of
  \<^verbatim>\<open>Error\<close> or of a subclass, whose prototype chain gives it the \<^verbatim>\<open>name\<close> \<open>name\<close>
  and the \<^verbatim>\<open>message\<close> \<^verbatim>\<open>''\<close> unless it has its own. No value of the model is a
  function, so an own property \<^verbatim>\<open>toString\<close> is never callable. Property getters,
  symbols and \<^verbatim>\<open>NaN\<close> are outside the model.
\<close>

datatype jsval =
    Undefined
  | Null
  | Bool bool
  | Num int
  | Str string
  | Arr "jsval list"
  | Obj "(string \<times> jsval) list"
  | ErrorObj string "(string \<times> jsval) list"

text \<open>JavaScript's \<^verbatim>\<open>ToBoolean\<close>.\<close>

fun truthy :: "jsval \<Rightarrow> bool" where
  "truthy Undefined = False"
| "truthy Null = False"
| "truthy (Bool b) = b"
| "truthy (Num n) = (n \<noteq> 0)"
| "truthy (Str s) = (s \<noteq> [])"
| "truthy (Arr xs) = True"
| "truthy (Obj ps) = True"
| "truthy (ErrorObj nm ps) = True"

text \<open>
  Reading a property \<^verbatim>\<open>v.k\<close>. On \<^verbatim>\<open>undefined\<close> and \<^verbatim>\<open>null\<close> it throws a
  TypeError (\<open>None\<close>); on an object it is the property's value or \<^verbatim>\<open>undefined\<close>,
  where an instance of \<^verbatim>\<open>Error\<close> inherits \<^verbatim>\<open>name\<close> and \<^verbatim>\<open>message\<close>;
  on a primitive or an array, the only data property the model knows is \<^verbatim>\<open>length\<close>.
\<close>

fun getProp :: "jsval \<Rightarrow> string \<Rightarrow> jsval option" where
  "getProp Undefined k = None"
| "getProp Null k = None"
| "getProp (Bool b) k = Some Undefined"
| "getProp (Num n) k = Some Undefined"
| "getProp (Str s) k = Some (if k = ''length'' then Num (int (length s)) else Undefined)"
| "getProp (Arr xs) k = Some (if k = ''length'' then Num (int (length xs)) else Undefined)"
| "getProp (Obj ps) k = Some (case map_of ps k of None \<Rightarrow> Undefined | Some v \<Rightarrow> v)"
| "getProp (ErrorObj nm ps) k =
     Some (case map_of ps k of
             Some v \<Rightarrow> v
           | None \<Rightarrow> if k = ''name'' then Str nm else if k = ''message'' then Str [] else Undefined)"

text \<open>\<^verbatim>\<open>a || b\<close> and \<^verbatim>\<open>a ?? b\<close> (on values already evaluated).\<close>

definition js_or :: "jsval \<Rightarrow> jsval \<Rightarrow> jsval" where
  "js_or a b = (if truthy a then a else b)"

definition nullish :: "jsval \<Rightarrow> bool" where
  "nullish a = (a = Undefined \<or> a = Null)"

definition coalesce :: "jsval \<Rightarrow> jsval \<Rightarrow> jsval" where
  "coalesce a b = (if nullish a then b else a)"

subsection \<open>Numbers and strings as text\<close>

text \<open>Decimal digits: \<open>show_nat\<close> is the text of a count in a template literal.\<close>

definition digit_char :: "nat \<Rightarrow> char" where
  "digit_char n = ''0123456789'' ! (n mod 10)"

fun show_nat :: "nat \<Rightarrow> string" where
  "show_nat n = (if n < 10 then [digit_char n] else show_nat (n div 10) @ [digit_char (n mod 10)])"

declare show_nat.simps [simp del]

text \<open>The text of an integer; \<^verbatim>\<open>Number::toString\<close> on the safe integers.\<close>

definition show_int :: "int \<Rightarrow> string" where
  "show_int i = (if i < 0 then CHR ''-'' # show_nat (nat (- i)) else show_nat (nat i))"

text \<open>\<^verbatim>\<open>Array.prototype.join\<close> on strings already converted.\<close>

fun join :: "string \<Rightarrow> string list \<Rightarrow> string" where
  "join sep [] = []"
| "join sep [x] = x"
| "join sep (x # y # ys) = x @ sep @ join sep (y # ys)"

text \<open>
  \<^verbatim>\<open>String(v)\<close>; \<open>None\<close> is a thrown TypeError. The text of a number is the
  built-in \<^verbatim>\<open>Number::toString\<close>, a parameter \<open>num\<close> here. An array is the join of
  its elements with a comma, where a nullish element gives the empty string. An object
  is converted by its \<^verbatim>\<open>toString\<close> method: \<^verbatim>\<open>Object.prototype.toString\<close> gives
  \<^verbatim>\<open>[object Object]\<close>, and \<^verbatim>\<open>Error.prototype.toString\<close> gives the name and the
  message, joined by a colon and a space when neither is empty. An own property
  \<^verbatim>\<open>toString\<close> hides the method and is not callable; \<^verbatim>\<open>valueOf\<close>, own or
  inherited, then gives no primitive either, and the conversion throws.
\<close>

function js_String :: "(int \<Rightarrow> string) \<Rightarrow> jsval \<Rightarrow> string option" where
  "js_String num Undefined = Some ''undefined''"
| "js_String num Null = Some ''null''"
| "js_String num (Bool b) = Some (if b then ''true'' else ''false'')"
| "js_String num (Num n) = Some (num n)"
| "js_String num (Str s) = Some s"
| "js_String num (Arr xs) =
     map_option (join '','')
       (those (map (\<lambda>x. if nullish x then Some [] else js_String num x) xs))"
| "js_String num (Obj ps) =
     (if map_of ps ''toString'' = None then Some ''[object Object]'' else None)"
| "js_String num (ErrorObj nm ps) =
     (if map_of ps ''toString'' = None then do {
        name \<leftarrow> (case map_of ps ''name'' of
                   None \<Rightarrow> Some nm
                 | Some v \<Rightarrow> if v = Undefined then Some ''Error'' else js_String num v);
        msg \<leftarrow> (case map_of ps ''message'' of
                  None \<Rightarrow> Some []
                | Some v \<Rightarrow> if v = Undefined then Some [] else js_String num v);
        Some (if name = [] then msg else if msg = [] then name else name @ '': '' @ msg) }
      else None)"
  by pat_completeness auto
termination
proof -
  have own: "size v < Suc (size_list (size_prod (\<lambda>x. 0) size) ps)"
    if "map_of ps k = Some v" for ps :: "(string \<times> jsval) list" and k v
    using that by (induction ps) (auto split: if_splits)
  have element: "size x < Suc (size_list size xs)" if "x \<in> set xs" for x :: jsval and xs
    using that by (induction xs) auto
  show ?thesis
    by (relation "measure (\<lambda>p. size (snd p))") (auto simp: own element)
qed

section \<open>The Diagnostic Normalizer: \<^verbatim>\<open>extractDiagnostics\<close>\<close>

record position =
  p_line :: jsval
  p_column :: jsval
  p_offset :: jsval

record diag_item =
  i_code :: jsval
  i_message :: jsval
  i_severity :: jsval
  i_start :: position
  i_end :: "position option"

record diagnostics =
  d_message :: jsval
  d_type :: jsval
  lexerErrors :: "diag_item list"
  parserErrors :: "diag_item list"
  semanticErrors :: "diag_item list"

text \<open>
  \<^verbatim>\<open>mapItem\<close>, lines 62-76. \<open>None\<close> is a thrown TypeError: the first read,
  \<^verbatim>\<open>item.start\<close>, throws when the item is nullish. \<^verbatim>\<open>end: item.end ? {...} : null\<close>
  copies \<^verbatim>\<open>line\<close>, \<^verbatim>\<open>col\<close> and \<^verbatim>\<open>offset\<close> of the nested object; \<open>None\<close> in
  \<open>i_end\<close> is the \<^verbatim>\<open>null\<close> of the source.
\<close>

definition mapItem :: "jsval \<Rightarrow> diag_item option" where
  "mapItem item = do {
     s \<leftarrow> getProp item ''start'';
     let start = js_or s (Obj []);
     code \<leftarrow> getProp item ''code'';
     msg \<leftarrow> getProp item ''message'';
     sev \<leftarrow> getProp item ''severity'';
     s_line \<leftarrow> getProp start ''line'';
     i_line \<leftarrow> getProp item ''line'';
     s_col \<leftarrow> getProp start ''col'';
     s_column \<leftarrow> getProp start ''column'';
     i_column \<leftarrow> getProp item ''column'';
     s_offset \<leftarrow> getProp start ''offset'';
     i_offset \<leftarrow> getProp item ''offset'';
     e \<leftarrow> getProp item ''end'';
     en \<leftarrow> (if truthy e then do {
               e_line \<leftarrow> getProp e ''line'';
               e_col \<leftarrow> getProp e ''col'';
               e_offset \<leftarrow> getProp e ''offset'';
               Some (Some \<lparr>p_line = e_line, p_column = e_col, p_offset = e_offset\<rparr>) }
            else Some None);
     Some \<lparr>i_code = js_or code Null,
           i_message = js_or msg Null,
           i_severity = (if sev \<noteq> Undefined then sev else Null),
           i_start = \<lparr>p_line = coalesce s_line (coalesce i_line Null),
                      p_column = coalesce s_col (coalesce s_column (coalesce i_column Null)),
                      p_offset = coalesce s_offset (coalesce i_offset Null)\<rparr>,
           i_end = en\<rparr> }"

text \<open>
  One of the three guarded assignments of lines 79-87, for the property \<open>k\<close>
  (\<^verbatim>\<open>lexerDiagnostics\<close>, ...): \<open>None\<close> when it throws, \<open>Some None\<close> when the guard is
  false and nothing is assigned, \<open>Some (Some ys)\<close> when \<open>ys\<close> is assigned.
  \<^verbatim>\<open>items.map(mapItem)\<close> throws as soon as one item does.
\<close>

definition category :: "jsval \<Rightarrow> string \<Rightarrow> diag_item list option option" where
  "category error k = do {
     c \<leftarrow> getProp error k;
     if truthy c then do {
       its \<leftarrow> getProp c ''items'';
       (case its of
          Arr xs \<Rightarrow> do { ys \<leftarrow> those (map mapItem xs); Some (Some ys) }
        | _ \<Rightarrow> Some None) }
     else Some None }"

text \<open>
  The \<^verbatim>\<open>try\<close> block of lines 78-90 on the record built so far: the three assignments in
  order; the first throw ends the block and the \<^verbatim>\<open>catch\<close> keeps what was assigned.
\<close>

definition assign :: "diag_item list option \<Rightarrow> diag_item list \<Rightarrow> diag_item list" where
  "assign r old = (case r of None \<Rightarrow> old | Some ys \<Rightarrow> ys)"

definition mapCategories :: "jsval \<Rightarrow> diagnostics \<Rightarrow> diagnostics" where
  "mapCategories error diag =
     (case category error ''lexerDiagnostics'' of
        None \<Rightarrow> diag
      | Some l \<Rightarrow>
          let diag1 = diag\<lparr>lexerErrors := assign l (lexerErrors diag)\<rparr> in
          (case category error ''parserDiagnostics'' of
             None \<Rightarrow> diag1
           | Some p \<Rightarrow>
               let diag2 = diag1\<lparr>parserErrors := assign p (parserErrors diag1)\<rparr> in
               (case category error ''semanticDiagnostics'' of
                  None \<Rightarrow> diag2
                | Some s \<Rightarrow> diag2\<lparr>semanticErrors := assign s (semanticErrors diag2)\<rparr>)))"

text \<open>
  Lines 54-60, outside the \<^verbatim>\<open>try\<close>: a throw here leaves
  \<^verbatim>\<open>extractDiagnostics\<close>. \<^verbatim>\<open>error && error.message ? error.message : String(error)\<close>
  calls \<^verbatim>\<open>String(error)\<close> when the failure has no truthy message, and
  \<^verbatim>\<open>String(error)\<close> can throw.
  \<^verbatim>\<open>error && error.type !== undefined ? error.type : null\<close> cannot.
\<close>

definition diag_message :: "(int \<Rightarrow> string) \<Rightarrow> jsval \<Rightarrow> jsval option" where
  "diag_message num error =
     (if truthy error then do {
        m \<leftarrow> getProp error ''message'';
        if truthy m then Some m else map_option Str (js_String num error) }
      else map_option Str (js_String num error))"

definition diag_type :: "jsval \<Rightarrow> jsval option" where
  "diag_type error =
     (if truthy error then do {
        t \<leftarrow> getProp error ''type'';
        Some (if t \<noteq> Undefined then t else Null) }
      else Some Null)"

text \<open>\<^verbatim>\<open>extractDiagnostics\<close>, lines 53-93; \<open>None\<close> is an exception leaving it.\<close>

definition extractDiagnostics :: "(int \<Rightarrow> string) \<Rightarrow> jsval \<Rightarrow> diagnostics option" where
  "extractDiagnostics num error = do {
     m \<leftarrow> diag_message num error;
     t \<leftarrow> diag_type error;
     Some (mapCategories error
       \<lparr>d_message = m, d_type = t, lexerErrors = [], parserErrors = [], semanticErrors = []\<rparr>) }"

section \<open>The outside world\<close>

text \<open>
  Everything \<^verbatim>\<open>gp-error-filter.js\<close> calls but does not define: Node's \<^verbatim>\<open>fs\<close> and
  \<^verbatim>\<open>path\<close> modules, the clock, \<^verbatim>\<open>JSON.stringify\<close> and the alphaTab library. They
  are parameters of the model. Each file-system call is recorded in a trace, and a call's
  outcome may depend on the trace before it, so nothing is assumed about how the file
  system answers. A rejected promise of \<^verbatim>\<open>fs\<close> carries a JavaScript \<^verbatim>\<open>Error\<close>, known
  here by its \<^verbatim>\<open>message\<close>.
\<close>

datatype exn = Error string

fun exn_message :: "exn \<Rightarrow> string" where
  "exn_message (Error m) = m"

datatype fs_call =
    Mkdir string
  | Readdir string
  | ReadFile string
  | CopyFile string string
  | WriteFile string string

type_synonym bytes = string

record state =
  trace :: "fs_call list"
  console :: "string list"

datatype file_result =
    Passed string string
  | Failed string string nat diagnostics
  | Errored string string

text \<open>The fields \<^verbatim>\<open>input\<close> and \<^verbatim>\<open>status\<close>, which every File Result has.\<close>

fun input :: "file_result \<Rightarrow> string" where
  "input (Passed i a) = i"
| "input (Failed i a n d) = i"
| "input (Errored i m) = i"

fun status :: "file_result \<Rightarrow> string" where
  "status (Passed i a) = ''passed''"
| "status (Failed i a n d) = ''failed''"
| "status (Errored i m) = ''error''"

text \<open>
  The summary of lines 215-223. Its fields \<^verbatim>\<open>inputDir\<close> and \<^verbatim>\<open>outDir\<close> are
  \<open>report_inputDir\<close> and \<open>report_outDir\<close> here.
\<close>

record batch =
  generatedAt :: string
  report_inputDir :: string
  report_outDir :: string
  totalFiles :: nat
  passed :: nat
  failed :: nat
  results :: "file_result list"

record options =
  opt_in :: string
  opt_out :: string
  dryRun :: bool
  verbose :: bool

record 'score world =
  fs_mkdir :: "fs_call list \<Rightarrow> string \<Rightarrow> string option"
  fs_readdir :: "fs_call list \<Rightarrow> string \<Rightarrow> string + string list"
  fs_readFile :: "fs_call list \<Rightarrow> string \<Rightarrow> jsval + bytes"
  fs_copyFile :: "fs_call list \<Rightarrow> string \<Rightarrow> string \<Rightarrow> string option"
  fs_writeFile :: "fs_call list \<Rightarrow> string \<Rightarrow> string \<Rightarrow> string option"
  path_join :: "string \<Rightarrow> string \<Rightarrow> string"
  path_dirname :: "string \<Rightarrow> string"
  path_basename :: "string \<Rightarrow> string \<Rightarrow> string"
  path_extname :: "string \<Rightarrow> string"
  path_resolve :: "string \<Rightarrow> string"
  loadScoreFromBytes :: "bytes \<Rightarrow> jsval + 'score"
  exportToString :: "'score \<Rightarrow> jsval + string"
  readScore :: "string \<Rightarrow> jsval option"
  now_iso :: string
  json_stringify :: "batch \<Rightarrow> string"
  number_text :: "int \<Rightarrow> string"

text \<open>
  In \<open>fs_mkdir\<close>, \<open>fs_copyFile\<close> and \<open>fs_writeFile\<close>, \<open>Some m\<close> is a rejection with
  message \<open>m\<close>. \<open>fs_readFile\<close>, \<open>loadScoreFromBytes\<close> and \<open>exportToString\<close> return
  \<open>Inl e\<close> when they throw the value \<open>e\<close>; \<open>loadScoreFromBytes\<close> stands for lines
  118-119 with \<^verbatim>\<open>new alphaTab.Settings()\<close> and \<open>exportToString\<close> for lines 122-124
  with \<^verbatim>\<open>new AlphaTexExporter()\<close>. \<open>readScore\<close> stands for lines 127-131
  (\<^verbatim>\<open>new AlphaTexImporter()\<close>, \<^verbatim>\<open>initFromString\<close>, \<^verbatim>\<open>readScore\<close>): \<open>Some e\<close> is
  the value thrown, \<open>None\<close> a re-import without exception. The \<open>console\<close> of a state
  holds what was written to the standard output and the standard error, in order;
  \<^verbatim>\<open>console.log\<close> and \<^verbatim>\<open>console.error\<close> end their text with a newline.
\<close>

definition newline :: string where
  "newline = [CHR 0x0A]"

definition console_log :: "string \<Rightarrow> state \<Rightarrow> state" where
  "console_log s st = st\<lparr>console := console st @ [s @ newline]\<rparr>"

definition stdout_write :: "string \<Rightarrow> state \<Rightarrow> state" where
  "stdout_write s st = st\<lparr>console := console st @ [s]\<rparr>"

definition called :: "fs_call \<Rightarrow> state \<Rightarrow> state" where
  "called c st = st\<lparr>trace := trace st @ [c]\<rparr>"

text \<open>\<^verbatim>\<open>ensureDir\<close> (lines 95-97) and \<^verbatim>\<open>copyFile\<close> (lines 99-103); \<open>Some e\<close> is thrown.\<close>

definition ensureDir :: "'s world \<Rightarrow> string \<Rightarrow> state \<Rightarrow> exn option \<times> state" where
  "ensureDir w dir st = (map_option Error (fs_mkdir w (trace st) dir), called (Mkdir dir) st)"

definition copyFile :: "'s world \<Rightarrow> string \<Rightarrow> string \<Rightarrow> state \<Rightarrow> exn option \<times> state" where
  "copyFile w src dest st =
     (case ensureDir w (path_dirname w dest) st of
        (Some e, st1) \<Rightarrow> (Some e, st1)
      | (None, st1) \<Rightarrow>
          (map_option Error (fs_copyFile w (trace st1) src dest), called (CopyFile src dest) st1))"

section \<open>The Round-Trip Validator: \<^verbatim>\<open>processFile\<close>\<close>

text \<open>
  The \<^verbatim>\<open>try\<close> body, lines 115-134: the value thrown if any, the variable \<^verbatim>\<open>atex\<close>
  as the \<^verbatim>\<open>catch\<close> finds it (\<open>None\<close> is its initial \<^verbatim>\<open>null\<close>), and the state.
\<close>

definition tryRoundTrip ::
  "'s world \<Rightarrow> string \<Rightarrow> state \<Rightarrow> jsval option \<times> string option \<times> state" where
  "tryRoundTrip w inputPath st =
     (let st1 = called (ReadFile inputPath) st in
      case fs_readFile w (trace st) inputPath of
        Inl e \<Rightarrow> (Some e, None, st1)
      | Inr data \<Rightarrow>
          (case loadScoreFromBytes w data of
             Inl e \<Rightarrow> (Some e, None, st1)
           | Inr score \<Rightarrow>
               (case exportToString w score of
                  Inl e \<Rightarrow> (Some e, None, st1)
                | Inr atex \<Rightarrow>
                    (case readScore w atex of
                       Some e \<Rightarrow> (Some e, Some atex, st1)
                     | None \<Rightarrow> (None, Some atex, st1)))))"

text \<open>
  The message of what \<^verbatim>\<open>fs.writeFile\<close> rejects with when its data is \<^verbatim>\<open>null\<close>,
  and the message of the TypeError of a \<^verbatim>\<open>String(error)\<close> that throws, the only
  exception that leaves \<^verbatim>\<open>extractDiagnostics\<close>.
\<close>

definition invalid_data_message :: string where
  "invalid_data_message = ''The '' @ [CHR 0x22] @ ''data'' @ [CHR 0x22] @
     '' argument must be of type string or an instance of Buffer, TypedArray, or DataView. Received null''"

definition type_error_message :: string where
  "type_error_message = ''Cannot convert object to primitive value''"

text \<open>Lines 160-168: saving the exported text; every failure of the write is caught.\<close>

definition saveAtex :: "'s world \<Rightarrow> string \<Rightarrow> string option \<Rightarrow> state \<Rightarrow> state" where
  "saveAtex w atexPath atex st =
     (case atex of
        None \<Rightarrow> console_log (''Failed to save alphaTex: '' @ invalid_data_message) st
      | Some text \<Rightarrow>
          (case fs_writeFile w (trace st) atexPath text of
             Some m \<Rightarrow>
               console_log (''Failed to save alphaTex: '' @ m) (called (WriteFile atexPath text) st)
           | None \<Rightarrow> called (WriteFile atexPath text) st))"

text \<open>
  The \<^verbatim>\<open>catch\<close> block, lines 136-172. The two \<^verbatim>\<open>ensureDir\<close> calls of lines 152 and
  162 stand outside the inner \<^verbatim>\<open>try\<close> blocks: what they throw leaves \<^verbatim>\<open>processFile\<close>.
\<close>

definition onFailure ::
  "'s world \<Rightarrow> string \<Rightarrow> string \<Rightarrow> string \<Rightarrow> string \<Rightarrow> options \<Rightarrow> jsval \<Rightarrow> string option
     \<Rightarrow> state \<Rightarrow> (exn + file_result) \<times> state" where
  "onFailure w outDir inputPath fileName atexName opts error atex st =
     (case extractDiagnostics (number_text w) error of
        None \<Rightarrow> (Inl (Error type_error_message), st)
      | Some diagnostics \<Rightarrow>
          let errorCount = length (lexerErrors diagnostics) + length (parserErrors diagnostics)
                + length (semanticErrors diagnostics);
              res = Failed fileName atexName errorCount diagnostics
          in if \<not> dryRun opts then
               let targetDir = path_join w outDir ''failed_gp5'' in
               (case ensureDir w targetDir st of
                  (Some e, st1) \<Rightarrow> (Inl e, st1)
                | (None, st1) \<Rightarrow>
                    let destPath = path_join w targetDir fileName;
                        st2 = (case copyFile w inputPath destPath st1 of
                                 (Some e, s) \<Rightarrow>
                                   console_log (''Failed to copy failed GP5: '' @ exn_message e) s
                               | (None, s) \<Rightarrow> s);
                        atexDir = path_join w outDir ''fail_atex''
                    in (case ensureDir w atexDir st2 of
                          (Some e, st3) \<Rightarrow> (Inl e, st3)
                        | (None, st3) \<Rightarrow>
                            (Inr res, saveAtex w (path_join w atexDir atexName) atex st3)))
             else (Inr res, st))"

text \<open>\<^verbatim>\<open>processFile\<close>, lines 105-173; \<open>Inl e\<close> is an exception leaving it.\<close>

definition processFile ::
  "'s world \<Rightarrow> string \<Rightarrow> string \<Rightarrow> string \<Rightarrow> options \<Rightarrow> state \<Rightarrow> (exn + file_result) \<times> state" where
  "processFile w inDir outDir fileName opts st =
     (let inputPath = path_join w inDir fileName;
          baseName = path_basename w fileName (path_extname w fileName);
          atexName = baseName @ ''.atex'';
          st0 = (if verbose opts then console_log (''Processing: '' @ fileName) st else st)
      in case tryRoundTrip w inputPath st0 of
           (None, atex, st1) \<Rightarrow> (Inr (Passed fileName atexName), st1)
         | (Some error, atex, st1) \<Rightarrow>
             onFailure w outDir inputPath fileName atexName opts error atex st1)"

section \<open>The Batch Runner and Report Writer: \<^verbatim>\<open>main\<close>\<close>

text \<open>\<^verbatim>\<open>f.toLowerCase().endsWith('.gp5')\<close>, line 189, on byte strings.\<close>

definition lower_char :: "char \<Rightarrow> char" where
  "lower_char c =
     (case map_of (zip ''ABCDEFGHIJKLMNOPQRSTUVWXYZ'' ''abcdefghijklmnopqrstuvwxyz'') c of
        Some l \<Rightarrow> l
      | None \<Rightarrow> c)"

definition toLowerCase :: "string \<Rightarrow> string" where
  "toLowerCase s = map lower_char s"

definition endsWith :: "string \<Rightarrow> string \<Rightarrow> bool" where
  "endsWith s suf = (length suf \<le> length s \<and> drop (length s - length suf) s = suf)"

definition is_gp5 :: "string \<Rightarrow> bool" where
  "is_gp5 f = endsWith (toLowerCase f) ''.gp5''"

text \<open>
  \<^verbatim>\<open>${res.errorCount}\<close> in the template of lines 204-205: a result without the field
  prints \<^verbatim>\<open>undefined\<close>.
\<close>

fun errorCount_text :: "file_result \<Rightarrow> string" where
  "errorCount_text (Failed i a n d) = show_nat n"
| "errorCount_text r = ''undefined''"

text \<open>
  The loop of lines 194-212 from index \<open>i\<close> on, over the files still to do;
  \<open>n\<close> is \<^verbatim>\<open>gp5Files.length\<close>.
\<close>

fun batch_loop ::
  "'s world \<Rightarrow> options \<Rightarrow> string \<Rightarrow> string \<Rightarrow> nat \<Rightarrow> nat \<Rightarrow> string list
     \<Rightarrow> file_result list \<Rightarrow> string list \<Rightarrow> state \<Rightarrow> file_result list \<times> string list \<times> state" where
  "batch_loop w opts inDir outDir n i [] rs logLines st = (rs, logLines, st)"
| "batch_loop w opts inDir outDir n i (fileName # rest) rs logLines st =
     (let st1 = stdout_write
            (''['' @ show_nat (i + 1) @ ''/'' @ show_nat n @ ''] '' @ fileName @ '' ... '') st
      in case processFile w inDir outDir fileName opts st1 of
           (Inr res, st2) \<Rightarrow>
             if status res = ''passed'' then
               batch_loop w opts inDir outDir n (i + 1) rest (rs @ [res])
                 (logLines @ [fileName @ '': PASSED'']) (console_log ''OK'' st2)
             else
               batch_loop w opts inDir outDir n (i + 1) rest (rs @ [res])
                 (logLines @ [fileName @ '': FAILED ('' @ errorCount_text res @ '' errors)''])
                 (console_log (''FAILED ('' @ errorCount_text res @ '' errors)'') st2)
         | (Inl e, st2) \<Rightarrow>
             batch_loop w opts inDir outDir n (i + 1) rest
               (rs @ [Errored fileName (exn_message e)])
               (logLines @ [fileName @ '': ERROR ('' @ exn_message e @ '')''])
               (console_log (''ERR '' @ exn_message e) st2))"

text \<open>\<^verbatim>\<open>fs.writeFile\<close> awaited outside any \<^verbatim>\<open>try\<close> (lines 225-226).\<close>

definition writeFile :: "'s world \<Rightarrow> string \<Rightarrow> string \<Rightarrow> state \<Rightarrow> exn option \<times> state" where
  "writeFile w p text st =
     (map_option Error (fs_writeFile w (trace st) p text), called (WriteFile p text) st)"

definition bool_text :: "bool \<Rightarrow> string" where
  "bool_text b = (if b then ''true'' else ''false'')"

text \<open>
  \<^verbatim>\<open>main\<close>, lines 175-238, after \<^verbatim>\<open>parseArgs\<close>. \<open>Inl e\<close> is the rejection that the
  caller reports as a fatal error; \<open>Inr b\<close> is the summary that was written as the report.
\<close>

definition main :: "'s world \<Rightarrow> options \<Rightarrow> state \<Rightarrow> (exn + batch) \<times> state" where
  "main w opts st =
     (let inDir = path_resolve w (opt_in opts);
          outDir = path_resolve w (opt_out opts);
          reportPath = path_join w outDir ''report.json'';
          logPath = path_join w outDir ''log.txt'';
          st1 = console_log (''Dry-run: '' @ bool_text (dryRun opts))
                  (console_log (''Output dir: '' @ outDir)
                    (console_log (''Input dir: '' @ inDir) st))
      in case ensureDir w outDir st1 of
           (Some e, st2) \<Rightarrow> (Inl e, st2)
         | (None, st2) \<Rightarrow>
             (case fs_readdir w (trace st2) inDir of
                Inl m \<Rightarrow> (Inl (Error m), called (Readdir inDir) st2)
              | Inr files \<Rightarrow>
                  let gp5Files = filter is_gp5 files in
                  (case batch_loop w opts inDir outDir (length gp5Files) 0 gp5Files [] []
                          (called (Readdir inDir) st2) of
                     (rs, logLines, st3) \<Rightarrow>
                       let summary = \<lparr>generatedAt = now_iso w, report_inputDir = inDir, report_outDir = outDir,
                             totalFiles = length gp5Files,
                             passed = length (filter (\<lambda>r. status r = ''passed'') rs),
                             failed = length (filter (\<lambda>r. status r = ''failed'') rs),
                             results = rs\<rparr>
                       in (case writeFile w reportPath (json_stringify w summary) st3 of
                             (Some e, st4) \<Rightarrow> (Inl e, st4)
                           | (None, st4) \<Rightarrow>
                               (case writeFile w logPath (join newline logLines) st4 of
                                  (Some e, st5) \<Rightarrow> (Inl e, st5)
                                | (None, st5) \<Rightarrow>
                                    let st6 = console_log (''Log: '' @ logPath)
                                          (console_log (''Report: '' @ reportPath)
                                            (console_log (''  Failed: '' @ show_nat (failed summary))
                                              (console_log (''  Passed: '' @ show_nat (passed summary))
                                                (console_log (''  Total: '' @ show_nat (totalFiles summary))
                                                  (console_log (newline @ ''Summary:'') st5)))));
                                        st7 = (if verbose opts then
                                                 console_log (newline @ ''Detailed results saved to report.json'') st6
                                               else st6)
                                    in (Inr summary, st7))))))"

section \<open>Notions used in the statements\<close>

text \<open>
  The optional fields of a File Result: \<^verbatim>\<open>errorCount\<close> and \<^verbatim>\<open>diagnostics\<close> exist on a
  failed result only, \<^verbatim>\<open>message\<close> on an error result only.
\<close>

fun errorCount :: "file_result \<Rightarrow> nat option" where
  "errorCount (Failed i a n d) = Some n"
| "errorCount r = None"

fun diagnostics_of :: "file_result \<Rightarrow> diagnostics option" where
  "diagnostics_of (Failed i a n d) = Some d"
| "diagnostics_of r = None"

definition consistent :: "file_result \<Rightarrow> bool" where
  "consistent r =
     (case r of
        Failed i a n d \<Rightarrow>
          n = length (lexerErrors d) + length (parserErrors d) + length (semanticErrors d)
      | _ \<Rightarrow> True)"

text \<open>
  The log line of a File Result as the specification words it:
  \<^verbatim>\<open><input>: PASSED\<close>, \<^verbatim>\<open><input>: FAILED (<errorCount> errors)\<close> or
  \<^verbatim>\<open><input>: ERROR (<message>)\<close>.
\<close>

fun log_line :: "file_result \<Rightarrow> string" where
  "log_line (Passed i a) = i @ '': PASSED''"
| "log_line (Failed i a n d) = i @ '': FAILED ('' @ show_nat n @ '' errors)''"
| "log_line (Errored i m) = i @ '': ERROR ('' @ m @ '')''"

text \<open>
  A property of a value that is known not to be nullish, and the specification's
  ``first non-null wins'' over a list of candidates in priority order.
\<close>

definition field :: "jsval \<Rightarrow> string \<Rightarrow> jsval" where
  "field v k = (case getProp v k of None \<Rightarrow> Undefined | Some x \<Rightarrow> x)"

definition first_non_null :: "jsval list \<Rightarrow> jsval" where
  "first_non_null vs = (case filter (\<lambda>v. \<not> nullish v) vs of [] \<Rightarrow> Null | v # _ \<Rightarrow> v)"

section \<open>A small corpus to run the script on\<close>

text \<open>
  A world with four directory entries. \<^verbatim>\<open>ok.gp5\<close> survives the round trip;
  the export of \<^verbatim>\<open>Bad.GP5\<close> is rejected by the importer with two semantic
  diagnostics; \<^verbatim>\<open>empty.gp5\<close> is rejected by the loader; \<^verbatim>\<open>notes.txt\<close> is
  not a score. The directories in \<open>blocked\<close> cannot be created.
\<close>

definition demo_failure :: jsval where
  "demo_failure =
     Obj [(''message'', Str ''semantic errors''),
          (''semanticDiagnostics'', Obj [(''items'', Arr [
             Obj [(''code'', Num 209), (''message'', Str ''bad articulation''), (''severity'', Num 2),
                  (''start'', Obj [(''line'', Num 3), (''col'', Num 5), (''offset'', Num 40)])],
             Obj [(''code'', Num 218), (''message'', Str ''wrong note kind''),
                  (''line'', Num 7), (''column'', Num 1)]])])]"

text \<open>
  \<^verbatim>\<open>path.extname\<close> and \<^verbatim>\<open>path.basename\<close> on a file name without directory part:
  the extension starts at the last dot, unless that dot is the first character or the
  name is \<^verbatim>\<open>..\<close>; the extension is cut off a longer name that ends with it.
\<close>

definition demo_extname :: "string \<Rightarrow> string" where
  "demo_extname f =
     (let ext = rev (takeWhile (\<lambda>c. c \<noteq> CHR ''.'') (rev f)) in
      if CHR ''.'' \<in> set f \<and> length ext + 1 < length f \<and> f \<noteq> ''..''
      then CHR ''.'' # ext else [])"

definition demo_basename :: "string \<Rightarrow> string \<Rightarrow> string" where
  "demo_basename f ext =
     (if endsWith f ext \<and> f \<noteq> ext then take (length f - length ext) f else f)"

definition demo_dirname :: "string \<Rightarrow> string" where
  "demo_dirname p = rev (drop 1 (dropWhile (\<lambda>c. c \<noteq> CHR ''/'') (rev p)))"

definition demo_world :: "string list \<Rightarrow> string world" where
  "demo_world blocked =
     \<lparr>fs_mkdir = (\<lambda>tr p. if p \<in> set blocked then Some ''EEXIST'' else None),
      fs_readdir = (\<lambda>tr p. Inr [''ok.gp5'', ''notes.txt'', ''Bad.GP5'', ''empty.gp5'']),
      fs_readFile = (\<lambda>tr p. Inr p),
      fs_copyFile = (\<lambda>tr src dest. None),
      fs_writeFile = (\<lambda>tr p text. None),
      path_join = (\<lambda>a b. a @ ''/'' @ b),
      path_dirname = demo_dirname,
      path_basename = demo_basename,
      path_extname = demo_extname,
      path_resolve = (\<lambda>p. ''/w/'' @ p),
      loadScoreFromBytes = (\<lambda>data. if data = ''/w/in/empty.gp5''
                                   then Inl (Obj [(''message'', Str ''unsupported format'')])
                                   else Inr data),
      exportToString = (\<lambda>score. Inr (''tex:'' @ score)),
      readScore = (\<lambda>text. if text = ''tex:/w/in/Bad.GP5'' then Some demo_failure else None),
      now_iso = ''2025-01-01T00:00:00.000Z'',
      json_stringify = (\<lambda>b. ''{}''),
      number_text = show_int\<rparr>"

definition demo_options :: "bool \<Rightarrow> options" where
  "demo_options dry = \<lparr>opt_in = ''in'', opt_out = ''out'', dryRun = dry, verbose = False\<rparr>"

definition start_state :: state where
  "start_state = \<lparr>trace = [], console = []\<rparr>"

definition demo_diagnostics :: diagnostics where
  "demo_diagnostics =
     \<lparr>d_message = Str ''semantic errors'', d_type = Null,
      lexerErrors = [], parserErrors = [],
      semanticErrors =
        [\<lparr>i_code = Num 209, i_message = Str ''bad articulation'', i_severity = Num 2,
          i_start = \<lparr>p_line = Num 3, p_column = Num 5, p_offset = Num 40\<rparr>,
          i_end = None\<rparr>,
         \<lparr>i_code = Num 218, i_message = Str ''wrong note kind'', i_severity = Null,
          i_start = \<lparr>p_line = Num 7, p_column = Num 1, p_offset = Null\<rparr>,
          i_end = None\<rparr>]\<rparr>"

definition loader_diagnostics :: diagnostics where
  "loader_diagnostics =
     \<lparr>d_message = Str ''unsupported format'', d_type = Null,
      lexerErrors = [], parserErrors = [], semanticErrors = []\<rparr>"

text \<open>The report of the run without dry-run, when every directory can be created.\<close>

definition demo_report :: batch where
  "demo_report =
     \<lparr>generatedAt = ''2025-01-01T00:00:00.000Z'',
      report_inputDir = ''/w/in'', report_outDir = ''/w/out'',
      totalFiles = 3, passed = 1, failed = 2,
      results =
        [Passed ''ok.gp5'' ''ok.atex'',
         Failed ''Bad.GP5'' ''Bad.atex'' 2 demo_diagnostics,
         Failed ''empty.gp5'' ''empty.atex'' 0 loader_diagnostics]\<rparr>"

text \<open>
  A diagnostic item that gives its start under both conventions and its end as a
  nested object.
\<close>

definition demo_item :: jsval where
  "demo_item =
     Obj [(''start'', Obj [(''line'', Num 3), (''column'', Num 5)]),
          (''line'', Num 9), (''column'', Num 8),
          (''end'', Obj [(''line'', Num 4), (''col'', Num 7)])]"

text \<open>
  A failure object without message whose parser diagnostics hold a \<^verbatim>\<open>null\<close> item.
\<close>

definition malformed_failure :: jsval where
  "malformed_failure =
     Obj [(''lexerDiagnostics'', Obj [(''items'', Arr [Obj [(''code'', Num 209)]])]),
          (''parserDiagnostics'', Obj [(''items'', Arr [Null])]),
          (''semanticDiagnostics'', Obj [(''items'', Arr [Obj [(''code'', Num 218)]])])]"

section \<open>Properties of the normalizer\<close>

lemma getProp_None_iff: "getProp v k = None \<longleftrightarrow> nullish v"
  by (cases v) (simp_all add: nullish_def)

lemma truthy_not_nullish: "truthy v \<Longrightarrow> \<not> nullish v"
  by (cases v) (simp_all add: nullish_def)

lemma getProp_field: "\<not> nullish v \<Longrightarrow> getProp v k = Some (field v k)"
  using getProp_None_iff [of v k] by (cases "getProp v k") (simp_all add: field_def)

lemma js_or_Obj_not_nullish: "\<not> nullish (js_or s (Obj ps))"
  by (cases s) (simp_all add: js_or_def nullish_def)

lemma first_non_null_2: "first_non_null [a, b] = coalesce a (coalesce b Null)"
  by (simp add: first_non_null_def coalesce_def)

lemma first_non_null_3: "first_non_null [a, b, c] = coalesce a (coalesce b (coalesce c Null))"
  by (simp add: first_non_null_def coalesce_def)

text \<open>On an item that is not nullish, every read of \<^verbatim>\<open>mapItem\<close> succeeds.\<close>

lemma mapItem_value:
  assumes "\<not> nullish item"
  shows "mapItem item = Some
     \<lparr>i_code = js_or (field item ''code'') Null,
      i_message = js_or (field item ''message'') Null,
      i_severity = (if field item ''severity'' \<noteq> Undefined then field item ''severity'' else Null),
      i_start =
        \<lparr>p_line = coalesce (field (js_or (field item ''start'') (Obj [])) ''line'')
                    (coalesce (field item ''line'') Null),
         p_column = coalesce (field (js_or (field item ''start'') (Obj [])) ''col'')
                      (coalesce (field (js_or (field item ''start'') (Obj [])) ''column'')
                         (coalesce (field item ''column'') Null)),
         p_offset = coalesce (field (js_or (field item ''start'') (Obj [])) ''offset'')
                      (coalesce (field item ''offset'') Null)\<rparr>,
      i_end =
        (if truthy (field item ''end'')
         then Some \<lparr>p_line = field (field item ''end'') ''line'',
                     p_column = field (field item ''end'') ''col'',
                     p_offset = field (field item ''end'') ''offset''\<rparr>
         else None)\<rparr>"
proof -
  have s: "\<not> nullish (js_or (field item ''start'') (Obj []))"
    by (rule js_or_Obj_not_nullish)
  show ?thesis
  proof (cases "truthy (field item ''end'')")
    case True
    then have "\<not> nullish (field item ''end'')" by (rule truthy_not_nullish)
    then show ?thesis using assms s True
      by (simp add: mapItem_def getProp_field Let_def)
  next
    case False
    then show ?thesis using assms s
      by (simp add: mapItem_def getProp_field Let_def)
  qed
qed

lemma mapItem_None_iff: "mapItem item = None \<longleftrightarrow> nullish item"
proof
  assume "mapItem item = None"
  then show "nullish item" using mapItem_value [of item] by auto
next
  assume "nullish item"
  then have "getProp item ''start'' = None" by (simp add: getProp_None_iff)
  then show "mapItem item = None" by (simp add: mapItem_def)
qed

text \<open>
  C5. A nested \<^verbatim>\<open>{start:{line:3,col:5}}\<close> and a flat \<^verbatim>\<open>{line:3,column:5}\<close> both
  normalize to the start \<^verbatim>\<open>{line:3, column:5, offset:null}\<close>.
\<close>

theorem mapItem_position_examples:
  "map_option i_start (mapItem (Obj [(''start'', Obj [(''line'', Num 3), (''col'', Num 5)])]))
     = Some \<lparr>p_line = Num 3, p_column = Num 5, p_offset = Null\<rparr> \<and>
   map_option i_start (mapItem (Obj [(''line'', Num 3), (''column'', Num 5)]))
     = Some \<lparr>p_line = Num 3, p_column = Num 5, p_offset = Null\<rparr>"
  by (simp add: mapItem_def js_or_def coalesce_def nullish_def)

text \<open>
  C6, as stated, asks the tolerant resolution for the end position too. The source maps
  \<^verbatim>\<open>end\<close> by \<^verbatim>\<open>{line: item.end.line, column: item.end.col, offset: item.end.offset}\<close>
  only: an end column given under the name \<^verbatim>\<open>column\<close> is dropped, and the flat
  fields of the item are not candidates for the end, while the same nested object under
  \<^verbatim>\<open>start\<close> keeps its column.
\<close>

theorem mapItem_end_column_lost:
  "map_option i_end (mapItem (Obj [(''end'', Obj [(''line'', Num 4), (''column'', Num 7)])]))
     = Some (Some \<lparr>p_line = Num 4, p_column = Undefined, p_offset = Undefined\<rparr>) \<and>
   map_option i_end
       (mapItem (Obj [(''line'', Num 3), (''column'', Num 5), (''end'', Obj [(''offset'', Num 9)])]))
     = Some (Some \<lparr>p_line = Undefined, p_column = Undefined, p_offset = Num 9\<rparr>) \<and>
   map_option (p_column \<circ> i_start)
       (mapItem (Obj [(''start'', Obj [(''line'', Num 4), (''column'', Num 7)])]))
     = Some (Num 7)"
  by (simp add: mapItem_def js_or_def coalesce_def nullish_def)

text \<open>
  C6, amended. For every item that \<^verbatim>\<open>mapItem\<close> maps, each field of \<open>start\<close> is the
  first non-null candidate, the fields of the nested object \<^verbatim>\<open>item.start\<close> (or of
  \<^verbatim>\<open>{}\<close> when there is none) before the flat fields of the item, and \<^verbatim>\<open>null\<close> when
  there is no candidate: \<^verbatim>\<open>line\<close> from \<^verbatim>\<open>start.line\<close>, \<^verbatim>\<open>item.line\<close>;
  \<^verbatim>\<open>column\<close> from \<^verbatim>\<open>start.col\<close>, \<^verbatim>\<open>start.column\<close>, \<^verbatim>\<open>item.column\<close>;
  \<^verbatim>\<open>offset\<close> from \<^verbatim>\<open>start.offset\<close>, \<^verbatim>\<open>item.offset\<close>. The end is \<^verbatim>\<open>null\<close> when
  \<^verbatim>\<open>item.end\<close> is falsy, and otherwise the \<^verbatim>\<open>line\<close>, \<^verbatim>\<open>col\<close> and \<^verbatim>\<open>offset\<close>
  of the nested object as they are.
\<close>

theorem mapItem_position_resolution:
  assumes "mapItem item = Some d"
  shows "p_line (i_start d) =
           first_non_null [field (js_or (field item ''start'') (Obj [])) ''line'',
                           field item ''line''] \<and>
         p_column (i_start d) =
           first_non_null [field (js_or (field item ''start'') (Obj [])) ''col'',
                           field (js_or (field item ''start'') (Obj [])) ''column'',
                           field item ''column''] \<and>
         p_offset (i_start d) =
           first_non_null [field (js_or (field item ''start'') (Obj [])) ''offset'',
                           field item ''offset''] \<and>
         i_end d =
           (if truthy (field item ''end'')
            then Some \<lparr>p_line = field (field item ''end'') ''line'',
                        p_column = field (field item ''end'') ''col'',
                        p_offset = field (field item ''end'') ''offset''\<rparr>
            else None)"
proof -
  from assms have "\<not> nullish item" using mapItem_None_iff [of item] by auto
  from mapItem_value [OF this] assms show ?thesis
    by (auto simp: first_non_null_2 first_non_null_3)
qed

lemma demo_item_mapped:
  "mapItem demo_item = Some
     \<lparr>i_code = Null, i_message = Null, i_severity = Null,
      i_start = \<lparr>p_line = Num 3, p_column = Num 5, p_offset = Null\<rparr>,
      i_end = Some \<lparr>p_line = Num 4, p_column = Num 7, p_offset = Undefined\<rparr>\<rparr>"
  by (simp add: demo_item_def mapItem_def js_or_def coalesce_def nullish_def)

theorem mapItem_position_resolution_witness:
  "mapItem demo_item = Some
     \<lparr>i_code = Null, i_message = Null, i_severity = Null,
      i_start = \<lparr>p_line = Num 3, p_column = Num 5, p_offset = Null\<rparr>,
      i_end = Some \<lparr>p_line = Num 4, p_column = Num 7, p_offset = Undefined\<rparr>\<rparr> \<and>
   first_non_null [field (js_or (field demo_item ''start'') (Obj [])) ''line'',
                   field demo_item ''line''] = Num 3 \<and>
   first_non_null [field (js_or (field demo_item ''start'') (Obj [])) ''col'',
                   field (js_or (field demo_item ''start'') (Obj [])) ''column'',
                   field demo_item ''column''] = Num 5 \<and>
   first_non_null [field (js_or (field demo_item ''start'') (Obj [])) ''offset'',
                   field demo_item ''offset''] = Null"
  using mapItem_position_resolution [OF demo_item_mapped] demo_item_mapped
  by simp

subsection \<open>\<^verbatim>\<open>extractDiagnostics\<close> returns\<close>

text \<open>
  The only exception that leaves \<^verbatim>\<open>extractDiagnostics\<close>: the failure has no truthy
  message and \<^verbatim>\<open>String(error)\<close> throws.
\<close>

lemma diag_message_None_iff:
  "diag_message num e = None \<longleftrightarrow>
     \<not> (truthy e \<and> truthy (field e ''message'')) \<and> js_String num e = None"
  by (cases "truthy e") (auto simp: diag_message_def getProp_field truthy_not_nullish)

lemma diag_type_Some: "\<exists>t. diag_type e = Some t"
  by (simp add: diag_type_def getProp_field truthy_not_nullish)

lemma extractDiagnostics_None_iff:
  "extractDiagnostics num e = None \<longleftrightarrow>
     \<not> (truthy e \<and> truthy (field e ''message'')) \<and> js_String num e = None"
proof -
  obtain t where t: "diag_type e = Some t" using diag_type_Some by blast
  show ?thesis
    using diag_message_None_iff [of num e]
    by (cases "diag_message num e") (simp_all add: extractDiagnostics_def t)
qed

lemma extractDiagnostics_Some:
  assumes "extractDiagnostics num e = Some d"
  shows "\<exists>m t. d = mapCategories e
       \<lparr>d_message = m, d_type = t, lexerErrors = [], parserErrors = [], semanticErrors = []\<rparr>"
  using assms by (auto simp: extractDiagnostics_def split: bind_splits)

text \<open>
  \<^verbatim>\<open>String(error)\<close> does not throw on a primitive, on a plain object without an own
  \<^verbatim>\<open>toString\<close> property, or on an array of such values.
\<close>

lemma js_String_primitive:
  "js_String num Undefined \<noteq> None" "js_String num Null \<noteq> None"
  "js_String num (Bool b) \<noteq> None" "js_String num (Num n) \<noteq> None"
  "js_String num (Str s) \<noteq> None"
  by simp_all

lemma js_String_Obj_None_iff: "js_String num (Obj ps) = None \<longleftrightarrow> map_of ps ''toString'' \<noteq> None"
  by simp

lemma js_String_Arr_None_iff:
  "js_String num (Arr xs) = None \<longleftrightarrow>
     list_ex (\<lambda>x. \<not> nullish x \<and> js_String num x = None) xs"
  by (induction xs) (auto split: option.splits)

lemma mapCategories_fields:
  "lexerErrors (mapCategories e d0) =
     (case category e ''lexerDiagnostics'' of Some (Some ys) \<Rightarrow> ys | _ \<Rightarrow> lexerErrors d0)"
  "parserErrors (mapCategories e d0) =
     (case category e ''lexerDiagnostics'' of
        None \<Rightarrow> parserErrors d0
      | Some l \<Rightarrow>
          (case category e ''parserDiagnostics'' of Some (Some ys) \<Rightarrow> ys | _ \<Rightarrow> parserErrors d0))"
  "semanticErrors (mapCategories e d0) =
     (case category e ''lexerDiagnostics'' of
        None \<Rightarrow> semanticErrors d0
      | Some l \<Rightarrow>
          (case category e ''parserDiagnostics'' of
             None \<Rightarrow> semanticErrors d0
           | Some p \<Rightarrow>
               (case category e ''semanticDiagnostics'' of
                  Some (Some ys) \<Rightarrow> ys
                | _ \<Rightarrow> semanticErrors d0)))"
  by (simp_all add: mapCategories_def assign_def Let_def split: option.splits)

text \<open>
  What a mapping failure is: the failure object is nullish, or the category's
  \<^verbatim>\<open>items\<close> array holds a nullish item.
\<close>

lemma those_map_None_iff: "those (map f xs) = None \<longleftrightarrow> list_ex (\<lambda>x. f x = None) xs"
  by (induction xs) (auto split: option.splits)

lemma category_None_iff:
  "category e k = None \<longleftrightarrow>
     nullish e \<or>
     (\<exists>xs. truthy (field e k) \<and> field (field e k) ''items'' = Arr xs \<and> list_ex nullish xs)"
proof (cases "nullish e")
  case True
  then show ?thesis by (simp add: category_def getProp_None_iff [THEN iffD2])
next
  case False
  note ne = this
  show ?thesis
  proof (cases "truthy (field e k)")
    case True
    then have "\<not> nullish (field e k)" by (rule truthy_not_nullish)
    with ne True show ?thesis
      by (cases "field (field e k) ''items''")
         (simp_all add: category_def getProp_field those_map_None_iff mapItem_None_iff
            bind_eq_None_conv)
  next
    case False
    with ne show ?thesis by (simp add: category_def getProp_field)
  qed
qed

text \<open>
  C7, as stated, lets \<^verbatim>\<open>extractDiagnostics\<close> return on a failure object of any shape.
  The \<^verbatim>\<open>String(error)\<close> of line 55 is outside the \<^verbatim>\<open>try\<close>: on the object
  \<^verbatim>\<open>{toString:'x'}\<close>, which has no message and cannot be converted to a string, the
  TypeError leaves \<^verbatim>\<open>extractDiagnostics\<close>.
\<close>

theorem extractDiagnostics_raises_on_unprintable:
  "extractDiagnostics show_int (Obj [(''toString'', Str ''x'')]) = None"
  by (simp add: extractDiagnostics_def diag_message_def)

text \<open>
  C7, amended. On every failure object that has a truthy message or that
  \<^verbatim>\<open>String(error)\<close> can convert, \<^verbatim>\<open>extractDiagnostics\<close> returns a record, and every
  failure of the mapping is swallowed: a category holds its mapped items when its
  assignment was reached and its guard held; it is empty when its guard was false, when
  its mapping threw, and when an earlier category threw (the \<^verbatim>\<open>try\<close> block ends at
  the first throw).
\<close>

theorem extractDiagnostics_returns:
  assumes "(truthy e \<and> truthy (field e ''message'')) \<or> js_String num e \<noteq> None"
  shows "\<exists>d. extractDiagnostics num e = Some d \<and>
     lexerErrors d =
       (case category e ''lexerDiagnostics'' of Some (Some ys) \<Rightarrow> ys | _ \<Rightarrow> []) \<and>
     parserErrors d =
       (case category e ''lexerDiagnostics'' of
          None \<Rightarrow> []
        | Some l \<Rightarrow>
            (case category e ''parserDiagnostics'' of Some (Some ys) \<Rightarrow> ys | _ \<Rightarrow> [])) \<and>
     semanticErrors d =
       (case category e ''lexerDiagnostics'' of
          None \<Rightarrow> []
        | Some l \<Rightarrow>
            (case category e ''parserDiagnostics'' of
               None \<Rightarrow> []
             | Some p \<Rightarrow>
                 (case category e ''semanticDiagnostics'' of
                    Some (Some ys) \<Rightarrow> ys
                  | _ \<Rightarrow> [])))"
proof -
  from assms have "extractDiagnostics num e \<noteq> None"
    by (auto simp: extractDiagnostics_None_iff)
  then obtain d where d: "extractDiagnostics num e = Some d" by blast
  from extractDiagnostics_Some [OF d] obtain m t where "d = mapCategories e
       \<lparr>d_message = m, d_type = t, lexerErrors = [], parserErrors = [], semanticErrors = []\<rparr>"
    by blast
  with d show ?thesis by (simp add: mapCategories_fields split: option.splits)
qed

lemma malformed_failure_categories:
  "category malformed_failure ''lexerDiagnostics'' =
     Some (Some [\<lparr>i_code = Num 209, i_message = Null, i_severity = Null,
                  i_start = \<lparr>p_line = Null, p_column = Null, p_offset = Null\<rparr>,
                  i_end = None\<rparr>])"
  "category malformed_failure ''parserDiagnostics'' = None"
  by (simp_all add: category_def mapItem_def malformed_failure_def js_or_def coalesce_def
      nullish_def)

theorem extractDiagnostics_returns_witness:
  "js_String show_int malformed_failure \<noteq> None \<and>
   (\<exists>d. extractDiagnostics show_int malformed_failure = Some d \<and>
        lexerErrors d =
          [\<lparr>i_code = Num 209, i_message = Null, i_severity = Null,
            i_start = \<lparr>p_line = Null, p_column = Null, p_offset = Null\<rparr>,
            i_end = None\<rparr>] \<and>
        parserErrors d = [] \<and> semanticErrors d = [])"
proof -
  have s: "js_String show_int malformed_failure \<noteq> None"
    by (simp add: malformed_failure_def)
  then have "(truthy malformed_failure \<and> truthy (field malformed_failure ''message'')) \<or>
      js_String show_int malformed_failure \<noteq> None" ..
  from extractDiagnostics_returns [OF this] s show ?thesis
    by (simp add: malformed_failure_categories)
qed

section \<open>Properties of the validator and the batch run\<close>

lemma consistent_simps [simp]:
  "consistent (Passed i a)"
  "consistent (Errored i m)"
  "consistent (Failed i a n d) \<longleftrightarrow>
     n = length (lexerErrors d) + length (parserErrors d) + length (semanticErrors d)"
  by (simp_all add: consistent_def)

text \<open>What \<^verbatim>\<open>processFile\<close> returns, when it returns: a passed or a failed result.\<close>

lemma onFailure_result:
  assumes "onFailure w outD inputPath fileName atexName opts err atex st = (Inr r, st')"
  shows "\<exists>d. r = Failed fileName atexName
            (length (lexerErrors d) + length (parserErrors d) + length (semanticErrors d)) d"
  using assms
  by (auto simp: onFailure_def Let_def split: option.splits prod.splits if_splits)

lemma processFile_result:
  assumes "processFile w inDir outD fileName opts st = (Inr r, st')"
  shows "(\<exists>a. r = Passed fileName a) \<or>
         (\<exists>a d. r = Failed fileName a
            (length (lexerErrors d) + length (parserErrors d) + length (semanticErrors d)) d)"
  using assms
  by (auto simp: processFile_def Let_def split: option.splits prod.splits dest: onFailure_result)

text \<open>
  The loop invariant: the loop appends one result and one log line per file, in the
  order of the files, whatever happens to each of them.
\<close>

lemma batch_loop_appends:
  "batch_loop w opts inDir outD n i fs rs ls st = (rs', ls', st') \<Longrightarrow>
   \<exists>new. rs' = rs @ new \<and> ls' = ls @ map log_line new \<and> map input new = fs \<and>
         list_all consistent new"
proof (induction fs arbitrary: i rs ls st)
  case Nil
  then show ?case by simp
next
  case (Cons f fs)
  let ?st1 = "stdout_write
       (''['' @ show_nat (i + 1) @ ''/'' @ show_nat n @ ''] '' @ f @ '' ... '') st"
  obtain out st2 where pf: "processFile w inDir outD f opts ?st1 = (out, st2)"
    by (cases "processFile w inDir outD f opts ?st1")
  show ?case
  proof (cases out)
    case (Inl e)
    with Cons.prems pf have
      "batch_loop w opts inDir outD n (i + 1) fs (rs @ [Errored f (exn_message e)])
         (ls @ [f @ '': ERROR ('' @ exn_message e @ '')''])
         (console_log (''ERR '' @ exn_message e) st2) = (rs', ls', st')"
      by (simp add: Let_def)
    from Cons.IH [OF this] obtain new where
      "rs' = (rs @ [Errored f (exn_message e)]) @ new"
      "ls' = (ls @ [f @ '': ERROR ('' @ exn_message e @ '')'']) @ map log_line new"
      "map input new = fs" "list_all consistent new" by blast
    then show ?thesis
      by (intro exI [of _ "Errored f (exn_message e) # new"]) simp
  next
    case (Inr res)
    from processFile_result [OF pf [unfolded Inr]] consider
      a where "res = Passed f a"
      | a d where "res = Failed f a
            (length (lexerErrors d) + length (parserErrors d) + length (semanticErrors d)) d"
      by blast
    then show ?thesis
    proof cases
      case 1
      with Cons.prems pf Inr have
        "batch_loop w opts inDir outD n (i + 1) fs (rs @ [res]) (ls @ [f @ '': PASSED''])
           (console_log ''OK'' st2) = (rs', ls', st')"
        by (simp add: Let_def)
      from Cons.IH [OF this] obtain new where
        "rs' = (rs @ [res]) @ new" "ls' = (ls @ [f @ '': PASSED'']) @ map log_line new"
        "map input new = fs" "list_all consistent new" by blast
      then show ?thesis using 1
        by (intro exI [of _ "res # new"]) simp
    next
      case 2
      with Cons.prems pf Inr have
        "batch_loop w opts inDir outD n (i + 1) fs (rs @ [res])
           (ls @ [f @ '': FAILED ('' @ errorCount_text res @ '' errors)''])
           (console_log (''FAILED ('' @ errorCount_text res @ '' errors)'') st2) = (rs', ls', st')"
        by (simp add: Let_def)
      from Cons.IH [OF this] obtain new where
        "rs' = (rs @ [res]) @ new"
        "ls' = (ls @ [f @ '': FAILED ('' @ errorCount_text res @ '' errors)'']) @ map log_line new"
        "map input new = fs" "list_all consistent new" by blast
      then show ?thesis using 2
        by (intro exI [of _ "res # new"]) simp
    qed
  qed
qed

lemma batch_loop_never_aborts:
  "map input (fst (batch_loop w opts inDir outD n i fs [] [] st)) = fs"
proof -
  obtain rs ls st' where "batch_loop w opts inDir outD n i fs [] [] st = (rs, ls, st')"
    by (cases "batch_loop w opts inDir outD n i fs [] [] st") auto
  from batch_loop_appends [OF this] this show ?thesis by auto
qed

text \<open>A run of \<^verbatim>\<open>main\<close> that wrote its report, taken apart.\<close>

lemma main_Inr:
  assumes "fst (main w opts st) = Inr b"
  shows "\<exists>files ls st0 st3.
           batch_loop w opts (path_resolve w (opt_in opts)) (path_resolve w (opt_out opts))
             (length (filter is_gp5 files)) 0 (filter is_gp5 files) [] [] st0
             = (results b, ls, st3) \<and>
           trace st0 = trace st @ [Mkdir (path_resolve w (opt_out opts)),
                                   Readdir (path_resolve w (opt_in opts))] \<and>
           fs_readdir w (trace st @ [Mkdir (path_resolve w (opt_out opts))])
             (path_resolve w (opt_in opts)) = Inr files \<and>
           totalFiles b = length (filter is_gp5 files) \<and>
           passed b = length (filter (\<lambda>r. status r = ''passed'') (results b)) \<and>
           failed b = length (filter (\<lambda>r. status r = ''failed'') (results b)) \<and>
           report_outDir b = path_resolve w (opt_out opts) \<and>
           trace (snd (main w opts st)) = trace st3 @
             [WriteFile (path_join w (path_resolve w (opt_out opts)) ''report.json'')
                (json_stringify w b),
              WriteFile (path_join w (path_resolve w (opt_out opts)) ''log.txt'')
                (join newline ls)]"
  using assms
  by (fastforce simp: main_def Let_def ensureDir_def writeFile_def called_def console_log_def
      split: option.splits prod.splits sum.splits if_splits)

lemma main_results:
  assumes "fst (main w opts st) = Inr b"
  shows "\<exists>files ls.
           fs_readdir w (trace st @ [Mkdir (path_resolve w (opt_out opts))])
             (path_resolve w (opt_in opts)) = Inr files \<and>
           map input (results b) = filter is_gp5 files \<and>
           ls = map log_line (results b) \<and>
           list_all consistent (results b) \<and>
           totalFiles b = length (filter is_gp5 files) \<and>
           passed b = length (filter (\<lambda>r. status r = ''passed'') (results b)) \<and>
           failed b = length (filter (\<lambda>r. status r = ''failed'') (results b)) \<and>
           report_outDir b = path_resolve w (opt_out opts) \<and>
           (\<exists>tr. trace (snd (main w opts st)) = tr @
             [WriteFile (path_join w (path_resolve w (opt_out opts)) ''log.txt'')
                (join newline ls)])"
proof -
  from main_Inr [OF assms] obtain files ls st0 st3 where
    loop: "batch_loop w opts (path_resolve w (opt_in opts)) (path_resolve w (opt_out opts))
             (length (filter is_gp5 files)) 0 (filter is_gp5 files) [] [] st0
             = (results b, ls, st3)"
    and rd: "fs_readdir w (trace st @ [Mkdir (path_resolve w (opt_out opts))])
             (path_resolve w (opt_in opts)) = Inr files"
    and rest: "totalFiles b = length (filter is_gp5 files)"
      "passed b = length (filter (\<lambda>r. status r = ''passed'') (results b))"
      "failed b = length (filter (\<lambda>r. status r = ''failed'') (results b))"
      "report_outDir b = path_resolve w (opt_out opts)"
    and tr: "trace (snd (main w opts st)) = trace st3 @
             [WriteFile (path_join w (path_resolve w (opt_out opts)) ''report.json'')
                (json_stringify w b),
              WriteFile (path_join w (path_resolve w (opt_out opts)) ''log.txt'')
                (join newline ls)]"
    by blast
  from batch_loop_appends [OF loop] have
    new: "ls = map log_line (results b)" "map input (results b) = filter is_gp5 files"
      "list_all consistent (results b)"
    by auto
  from tr have "\<exists>tr. trace (snd (main w opts st)) = tr @
             [WriteFile (path_join w (path_resolve w (opt_out opts)) ''log.txt'')
                (join newline ls)]"
    by (intro exI [of _ "trace st3 @
          [WriteFile (path_join w (path_resolve w (opt_out opts)) ''report.json'')
             (json_stringify w b)]"]) simp
  with rd rest new show ?thesis by blast
qed

text \<open>
  \<^verbatim>\<open>main\<close> writes its report when the output directory can be created, the input
  directory can be listed and the two final writes succeed; the loop itself always ends,
  being a recursion over the list of files.
\<close>

lemma main_returns:
  assumes "\<And>tr. fs_mkdir w tr (path_resolve w (opt_out opts)) = None"
    and "\<And>tr. \<exists>files. fs_readdir w tr (path_resolve w (opt_in opts)) = Inr files"
    and "\<And>tr p text. fs_writeFile w tr p text = None"
  shows "\<exists>b. fst (main w opts st) = Inr b"
proof -
  let ?st1 = "console_log (''Dry-run: '' @ bool_text (dryRun opts))
                (console_log (''Output dir: '' @ path_resolve w (opt_out opts))
                  (console_log (''Input dir: '' @ path_resolve w (opt_in opts)) st))"
  let ?st2 = "called (Mkdir (path_resolve w (opt_out opts))) ?st1"
  obtain files where
    rd: "fs_readdir w (trace ?st2) (path_resolve w (opt_in opts)) = Inr files"
    using assms(2) by blast
  obtain rs ls st3 where
    "batch_loop w opts (path_resolve w (opt_in opts)) (path_resolve w (opt_out opts))
       (length (filter is_gp5 files)) 0 (filter is_gp5 files) [] []
       (called (Readdir (path_resolve w (opt_in opts))) ?st2) = (rs, ls, st3)"
    by (metis prod_cases3)
  with rd show ?thesis
    by (simp add: main_def Let_def ensureDir_def writeFile_def assms(1,3))
qed

lemma count_partition:
  "length (filter (\<lambda>r. status r = ''passed'') rs) + length (filter (\<lambda>r. status r = ''failed'') rs)
     + length (filter (\<lambda>r. status r = ''error'') rs) = length rs"
proof (induction rs)
  case Nil
  then show ?case by simp
next
  case (Cons r rs)
  then show ?case by (cases r) simp_all
qed

subsection \<open>The run on the small corpus\<close>

lemmas js_defs = js_or_def coalesce_def nullish_def assign_def

lemmas demo_defs = demo_world_def demo_options_def start_state_def demo_extname_def
  demo_basename_def demo_dirname_def endsWith_def

lemmas io_defs = called_def console_log_def stdout_write_def ensureDir_def copyFile_def
  saveAtex_def writeFile_def

lemma demo_failure_normalized: "extractDiagnostics num demo_failure = Some demo_diagnostics"
  by (simp add: extractDiagnostics_def diag_message_def diag_type_def mapCategories_def
      category_def mapItem_def demo_failure_def js_defs demo_diagnostics_def)

lemma loader_error_normalized:
  "extractDiagnostics num (Obj [(''message'', Str ''unsupported format'')]) = Some loader_diagnostics"
  by (simp add: extractDiagnostics_def diag_message_def diag_type_def mapCategories_def
      category_def js_defs loader_diagnostics_def)

lemma loader_diagnostics_count:
  "length (lexerErrors loader_diagnostics) + length (parserErrors loader_diagnostics)
     + length (semanticErrors loader_diagnostics) = 0"
  by (simp add: loader_diagnostics_def)

lemma demo_diagnostics_count:
  "length (lexerErrors demo_diagnostics) + length (parserErrors demo_diagnostics)
     + length (semanticErrors demo_diagnostics) = 2"
  by (simp add: demo_diagnostics_def)

lemma demo_listing:
  "is_gp5 ''ok.gp5''" "\<not> is_gp5 ''notes.txt''" "is_gp5 ''Bad.GP5''" "is_gp5 ''empty.gp5''"
  by (simp_all add: is_gp5_def endsWith_def toLowerCase_def lower_char_def)

lemma show_nat_small:
  "show_nat 0 = ''0''" "show_nat 1 = ''1''" "show_nat 2 = ''2''" "show_nat 3 = ''3''"
  "show_nat (Suc 0) = ''1''"
  by (simp_all add: show_nat.simps digit_char_def)

lemmas run_defs = main_def processFile_def tryRoundTrip_def onFailure_def demo_defs
  demo_failure_normalized loader_error_normalized demo_diagnostics_count
  loader_diagnostics_count demo_listing Let_def io_defs bool_text_def show_nat_small

lemma demo_run: "fst (main (demo_world []) (demo_options False) start_state) = Inr demo_report"
  by (simp add: run_defs demo_report_def)

lemma run_blocked:
  "fst (main (demo_world [''/w/out/failed_gp5'']) (demo_options False) start_state) = Inr
     \<lparr>generatedAt = ''2025-01-01T00:00:00.000Z'',
      report_inputDir = ''/w/in'', report_outDir = ''/w/out'',
      totalFiles = 3, passed = 1, failed = 0,
      results = [Passed ''ok.gp5'' ''ok.atex'', Errored ''Bad.GP5'' ''EEXIST'',
                 Errored ''empty.gp5'' ''EEXIST'']\<rparr>"
  by (simp add: run_defs)

lemma run_blocked_dry:
  "fst (main (demo_world [''/w/out/failed_gp5'']) (demo_options True) start_state) = Inr
     \<lparr>generatedAt = ''2025-01-01T00:00:00.000Z'',
      report_inputDir = ''/w/in'', report_outDir = ''/w/out'',
      totalFiles = 3, passed = 1, failed = 2,
      results = [Passed ''ok.gp5'' ''ok.atex'',
                 Failed ''Bad.GP5'' ''Bad.atex'' 2 demo_diagnostics,
                 Failed ''empty.gp5'' ''empty.atex'' 0 loader_diagnostics]\<rparr>"
  by (simp add: run_defs)

subsection \<open>The counts and the results of a report\<close>

text \<open>
  C3. The report of every batch run satisfies \<open>passed + failed \<le> totalFiles\<close>, and its
  \<open>results\<close> hold exactly one File Result per file: their number is \<open>totalFiles\<close>.
  The results of status \<^verbatim>\<open>error\<close> are counted in neither \<open>passed\<close> nor \<open>failed\<close>:
  with them the three counts add up to \<open>totalFiles\<close>.
\<close>

theorem batch_counts:
  assumes "fst (main w opts st) = Inr b"
  shows "passed b + failed b \<le> totalFiles b \<and> length (results b) = totalFiles b \<and>
         passed b + failed b + length (filter (\<lambda>r. status r = ''error'') (results b))
           = totalFiles b"
proof -
  from main_results [OF assms] obtain files where
    "map input (results b) = filter is_gp5 files" "totalFiles b = length (filter is_gp5 files)"
    "passed b = length (filter (\<lambda>r. status r = ''passed'') (results b))"
    "failed b = length (filter (\<lambda>r. status r = ''failed'') (results b))"
    by blast
  moreover from this(1,2) have "length (results b) = totalFiles b"
    by (metis length_map)
  ultimately show ?thesis using count_partition [of "results b"] by simp
qed

theorem batch_counts_witness:
  "fst (main (demo_world []) (demo_options False) start_state) = Inr demo_report \<and>
   passed demo_report + failed demo_report \<le> totalFiles demo_report \<and>
   length (results demo_report) = totalFiles demo_report \<and>
   passed demo_report = 1 \<and> failed demo_report = 2 \<and> totalFiles demo_report = 3"
  using batch_counts [OF demo_run] demo_run by (simp add: demo_report_def)

text \<open>
  C4. In every report, a File Result of status \<^verbatim>\<open>failed\<close> has diagnostics, and its
  \<^verbatim>\<open>errorCount\<close> is the sum of the lengths of their three sequences.
\<close>

theorem failed_errorCount_is_sum:
  assumes "fst (main w opts st) = Inr b"
    and "r \<in> set (results b)"
    and "status r = ''failed''"
  shows "\<exists>d. diagnostics_of r = Some d \<and>
           errorCount r =
             Some (length (lexerErrors d) + length (parserErrors d) + length (semanticErrors d))"
proof -
  from main_results [OF assms(1)] have "list_all consistent (results b)" by blast
  with assms(2) have "consistent r" by (simp add: list_all_iff)
  with assms(3) show ?thesis by (cases r) simp_all
qed

theorem failed_errorCount_is_sum_witness:
  "fst (main (demo_world []) (demo_options False) start_state) = Inr demo_report \<and>
   Failed ''Bad.GP5'' ''Bad.atex'' 2 demo_diagnostics \<in> set (results demo_report) \<and>
   status (Failed ''Bad.GP5'' ''Bad.atex'' 2 demo_diagnostics) = ''failed'' \<and>
   (\<exists>d. diagnostics_of (Failed ''Bad.GP5'' ''Bad.atex'' 2 demo_diagnostics) = Some d \<and>
        errorCount (Failed ''Bad.GP5'' ''Bad.atex'' 2 demo_diagnostics) =
          Some (length (lexerErrors d) + length (parserErrors d) + length (semanticErrors d)))"
proof -
  have m: "Failed ''Bad.GP5'' ''Bad.atex'' 2 demo_diagnostics \<in> set (results demo_report)"
    by (simp add: demo_report_def)
  have s: "status (Failed ''Bad.GP5'' ''Bad.atex'' 2 demo_diagnostics) = ''failed''" by simp
  from failed_errorCount_is_sum [OF demo_run m s] demo_run m s show ?thesis by blast
qed

text \<open>
  C9. The last thing a batch run writes is the flat log: the log lines of the results,
  one per File Result and in the order of the results, joined by newlines, where the
  line of a result is \<^verbatim>\<open><input>: PASSED\<close>, \<^verbatim>\<open><input>: FAILED (<errorCount> errors)\<close>
  or \<^verbatim>\<open><input>: ERROR (<message>)\<close> according to its status.
\<close>

theorem log_one_line_per_file:
  assumes "fst (main w opts st) = Inr b"
  shows "\<exists>tr. trace (snd (main w opts st)) = tr @
           [WriteFile (path_join w (report_outDir b) ''log.txt'')
              (join newline (map log_line (results b)))]"
  using main_results [OF assms] by auto

lemma demo_log:
  "join newline (map log_line (results demo_report)) =
     ''ok.gp5: PASSED'' @ newline @ ''Bad.GP5: FAILED (2 errors)'' @ newline @
     ''empty.gp5: FAILED (0 errors)''"
  by (simp add: demo_report_def show_nat_small)

theorem log_one_line_per_file_witness:
  "fst (main (demo_world []) (demo_options False) start_state) = Inr demo_report \<and>
   (\<exists>tr. trace (snd (main (demo_world []) (demo_options False) start_state)) = tr @
      [WriteFile ''/w/out/log.txt''
         (''ok.gp5: PASSED'' @ newline @ ''Bad.GP5: FAILED (2 errors)'' @ newline @
          ''empty.gp5: FAILED (0 errors)'')])"
proof -
  have p: "path_join (demo_world []) (report_outDir demo_report) ''log.txt'' = ''/w/out/log.txt''"
    by (simp add: demo_world_def demo_report_def)
  from log_one_line_per_file [OF demo_run] show ?thesis
    unfolding p demo_log using demo_run by simp
qed

text \<open>
  The test of line 189 holds exactly for the names that, in lower case, end with
  \<^verbatim>\<open>.gp5\<close>.
\<close>

lemma endsWith_iff: "endsWith s suf \<longleftrightarrow> (\<exists>stem. s = stem @ suf)"
proof
  assume "endsWith s suf"
  then have "s = take (length s - length suf) s @ suf"
    by (metis append_take_drop_id endsWith_def)
  then show "\<exists>stem. s = stem @ suf" ..
next
  assume "\<exists>stem. s = stem @ suf"
  then show "endsWith s suf" by (auto simp: endsWith_def)
qed

lemma is_gp5_iff: "is_gp5 f \<longleftrightarrow> (\<exists>stem. toLowerCase f = stem @ ''.gp5'')"
  by (simp add: is_gp5_def endsWith_iff)

text \<open>
  C10. The inputs of the results of a batch run are the entries of the directory listing
  whose names end, case-insensitively, with \<^verbatim>\<open>.gp5\<close>, in the order of the listing, and
  \<open>totalFiles\<close> is the number of those entries, not of all entries.
\<close>

theorem only_gp5_files_processed:
  assumes "fst (main w opts st) = Inr b"
  shows "\<exists>files.
           fs_readdir w (trace st @ [Mkdir (path_resolve w (opt_out opts))])
             (path_resolve w (opt_in opts)) = Inr files \<and>
           map input (results b) = filter is_gp5 files \<and>
           totalFiles b = length (filter is_gp5 files)"
  using main_results [OF assms] by blast

theorem only_gp5_files_processed_witness:
  "fst (main (demo_world []) (demo_options False) start_state) = Inr demo_report \<and>
   fs_readdir (demo_world [])
       (trace start_state @ [Mkdir (path_resolve (demo_world []) (opt_out (demo_options False)))])
       (path_resolve (demo_world []) (opt_in (demo_options False)))
     = Inr [''ok.gp5'', ''notes.txt'', ''Bad.GP5'', ''empty.gp5''] \<and>
   map input (results demo_report) = [''ok.gp5'', ''Bad.GP5'', ''empty.gp5''] \<and>
   totalFiles demo_report = 3"
  using only_gp5_files_processed [OF demo_run] demo_run
  by (simp add: demo_world_def demo_report_def)

subsection \<open>Failures before the re-import\<close>

text \<open>
  The \<^verbatim>\<open>try\<close> of \<^verbatim>\<open>processFile\<close> spans the read, the load and the export as well as
  the re-import, and its \<^verbatim>\<open>catch\<close> returns a failed result for whatever was thrown.
  In a dry run the only file-system call per file is the read of the input, and the only
  exception that leaves \<^verbatim>\<open>processFile\<close> is the TypeError of a \<^verbatim>\<open>String(error)\<close>
  that throws: a failure of the read, the load or the export that
  \<^verbatim>\<open>extractDiagnostics\<close> can normalize never gets the status \<^verbatim>\<open>error\<close>.
\<close>

lemma tryRoundTrip_trace:
  "tryRoundTrip w p st = (thrown, atex, st1) \<Longrightarrow> st1 = called (ReadFile p) st"
  by (auto simp: tryRoundTrip_def Let_def split: sum.splits option.splits)

lemma processFile_dry_run:
  assumes "dryRun opts"
  shows "((\<exists>r. fst (processFile w inDir outD f opts st) = Inr r \<and> status r \<noteq> ''error'') \<or>
          fst (processFile w inDir outD f opts st) = Inl (Error type_error_message)) \<and>
         trace (snd (processFile w inDir outD f opts st)) =
           trace st @ [ReadFile (path_join w inDir f)]"
proof -
  let ?st0 = "if verbose opts then console_log (''Processing: '' @ f) st else st"
  obtain thrown atex st1 where
    t: "tryRoundTrip w (path_join w inDir f) ?st0 = (thrown, atex, st1)"
    by (cases "tryRoundTrip w (path_join w inDir f) ?st0") auto
  from tryRoundTrip_trace [OF t] have
    tr: "trace st1 = trace st @ [ReadFile (path_join w inDir f)]"
    by (simp add: called_def console_log_def)
  show ?thesis
  proof (cases thrown)
    case None
    with t tr show ?thesis by (simp add: processFile_def Let_def)
  next
    case (Some e)
    with t tr assms show ?thesis
      by (cases "extractDiagnostics (number_text w) e")
         (simp_all add: processFile_def onFailure_def Let_def)
  qed
qed

text \<open>
  C1 asks the status \<^verbatim>\<open>error\<close> for a failure of the load or the export. On the small
  corpus, the loader rejects \<^verbatim>\<open>empty.gp5\<close>; the File Result is a failed one with
  \<^verbatim>\<open>errorCount\<close> 0.
\<close>

theorem load_failure_reported_as_failed:
  "fst (processFile (demo_world []) ''/w/in'' ''/w/out'' ''empty.gp5'' (demo_options True)
          start_state)
     = Inr (Failed ''empty.gp5'' ''empty.atex'' 0 loader_diagnostics)"
  by (simp add: processFile_def tryRoundTrip_def onFailure_def demo_defs
      loader_error_normalized loader_diagnostics_count Let_def io_defs)

subsection \<open>Failures while saving the artifacts\<close>

text \<open>
  A failure of the copy or of the write of the exported text is caught and logged: when
  the failure was normalized and the two artifact directories can be created, the
  \<^verbatim>\<open>catch\<close> block returns the failed result whatever the copy and the write do.
\<close>

lemma copy_and_write_failures_keep_status:
  assumes "\<And>tr. fs_mkdir w tr (path_join w outD ''failed_gp5'') = None"
    and "\<And>tr. fs_mkdir w tr (path_join w outD ''fail_atex'') = None"
    and "extractDiagnostics (number_text w) e = Some d"
  shows "fst (onFailure w outD inputPath fileName atexName opts e atex st) =
           Inr (Failed fileName atexName
             (length (lexerErrors d) + length (parserErrors d) + length (semanticErrors d)) d)"
  using assms
  by (auto simp: onFailure_def ensureDir_def Let_def split: prod.splits option.splits)

text \<open>
  C2 asks the same of a failure to create the artifact directories. The calls of
  \<^verbatim>\<open>ensureDir\<close> in lines 152 and 162 are outside the inner \<^verbatim>\<open>try\<close> blocks: when
  \<^verbatim>\<open>failed_gp5\<close> cannot be created, the exception leaves \<^verbatim>\<open>processFile\<close> and
  \<^verbatim>\<open>main\<close> records the status \<^verbatim>\<open>error\<close> for a file whose round trip had failed. The
  batch goes on to the next file.
\<close>

theorem blocked_directory_changes_status:
  "fst (processFile (demo_world [''/w/out/failed_gp5'']) ''/w/in'' ''/w/out'' ''Bad.GP5''
          (demo_options False) start_state)
     = Inl (Error ''EEXIST'') \<and>
   map_sum id results
       (fst (main (demo_world [''/w/out/failed_gp5'']) (demo_options False) start_state))
     = Inr [Passed ''ok.gp5'' ''ok.atex'', Errored ''Bad.GP5'' ''EEXIST'',
            Errored ''empty.gp5'' ''EEXIST'']"
  by (simp add: run_blocked)
     (simp add: processFile_def tryRoundTrip_def onFailure_def demo_defs
        demo_failure_normalized Let_def io_defs)

subsection \<open>Dry run\<close>

text \<open>In a dry run the loop only reads the inputs: no artifact is copied or written.\<close>

lemma batch_loop_dry_run_trace:
  assumes "dryRun opts"
  shows "trace (snd (snd (batch_loop w opts inDir outD n i fs rs ls st))) =
           trace st @ map (\<lambda>f. ReadFile (path_join w inDir f)) fs"
proof (induction fs arbitrary: i rs ls st)
  case Nil
  then show ?case by simp
next
  case (Cons f fs)
  let ?st1 = "stdout_write
       (''['' @ show_nat (i + 1) @ ''/'' @ show_nat n @ ''] '' @ f @ '' ... '') st"
  obtain out st2 where pf: "processFile w inDir outD f opts ?st1 = (out, st2)"
    by (cases "processFile w inDir outD f opts ?st1")
  from processFile_dry_run [OF assms, of w inDir outD f ?st1] pf have
    tr: "trace st2 = trace st @ [ReadFile (path_join w inDir f)]"
    by (simp add: stdout_write_def)
  show ?case using pf tr
    by (cases out) (simp_all add: Let_def Cons.IH console_log_def)
qed

lemma dry_run_writes_no_artifacts:
  assumes "dryRun opts" and "fst (main w opts st) = Inr b"
  shows "\<exists>files. trace (snd (main w opts st)) =
           trace st @
           [Mkdir (path_resolve w (opt_out opts)), Readdir (path_resolve w (opt_in opts))] @
           map (\<lambda>f. ReadFile (path_join w (path_resolve w (opt_in opts)) f))
             (filter is_gp5 files) @
           [WriteFile (path_join w (path_resolve w (opt_out opts)) ''report.json'')
              (json_stringify w b),
            WriteFile (path_join w (path_resolve w (opt_out opts)) ''log.txt'')
              (join newline (map log_line (results b)))]"
proof -
  from main_Inr [OF assms(2)] obtain files ls st0 st3 where
    loop: "batch_loop w opts (path_resolve w (opt_in opts)) (path_resolve w (opt_out opts))
             (length (filter is_gp5 files)) 0 (filter is_gp5 files) [] [] st0
             = (results b, ls, st3)"
    and st0: "trace st0 = trace st @ [Mkdir (path_resolve w (opt_out opts)),
                                   Readdir (path_resolve w (opt_in opts))]"
    and tr: "trace (snd (main w opts st)) = trace st3 @
             [WriteFile (path_join w (path_resolve w (opt_out opts)) ''report.json'')
                (json_stringify w b),
              WriteFile (path_join w (path_resolve w (opt_out opts)) ''log.txt'')
                (join newline ls)]"
    by blast
  from batch_loop_appends [OF loop] have ls: "ls = map log_line (results b)" by auto
  from batch_loop_dry_run_trace [OF assms(1), of w "path_resolve w (opt_in opts)"
      "path_resolve w (opt_out opts)" "length (filter is_gp5 files)" 0 "filter is_gp5 files"
      "[]" "[]" st0] loop
  have "trace st3 = trace st0 @
          map (\<lambda>f. ReadFile (path_join w (path_resolve w (opt_in opts)) f)) (filter is_gp5 files)"
    by simp
  with st0 tr ls show ?thesis by (intro exI [of _ files]) simp
qed

text \<open>
  When reading a file does not depend on what was written before and the two artifact
  directories can be created, the run with artifacts and the dry run give the same report.
\<close>

lemma tryRoundTrip_independent:
  assumes "\<And>tr tr' p. fs_readFile w tr p = fs_readFile w tr' p"
  shows "fst (tryRoundTrip w p st) = fst (tryRoundTrip w p st') \<and>
         fst (snd (tryRoundTrip w p st)) = fst (snd (tryRoundTrip w p st'))"
proof -
  have "fs_readFile w (trace st) p = fs_readFile w (trace st') p" by (rule assms)
  then show ?thesis
    by (simp add: tryRoundTrip_def Let_def split: sum.splits option.splits)
qed

lemma processFile_independent:
  assumes "\<And>tr tr' p. fs_readFile w tr p = fs_readFile w tr' p"
    and "\<And>tr. fs_mkdir w tr (path_join w outD ''failed_gp5'') = None"
    and "\<And>tr. fs_mkdir w tr (path_join w outD ''fail_atex'') = None"
  shows "fst (processFile w inDir outD f opts st) = fst (processFile w inDir outD f opts' st')"
proof -
  let ?p = "path_join w inDir f"
  let ?a = "path_basename w f (path_extname w f) @ ''.atex''"
  let ?s = "if verbose opts then console_log (''Processing: '' @ f) st else st"
  let ?s' = "if verbose opts' then console_log (''Processing: '' @ f) st' else st'"
  obtain thrown atex st1 where t: "tryRoundTrip w ?p ?s = (thrown, atex, st1)"
    by (cases "tryRoundTrip w ?p ?s") auto
  obtain thrown' atex' st1' where t': "tryRoundTrip w ?p ?s' = (thrown', atex', st1')"
    by (cases "tryRoundTrip w ?p ?s'") auto
  from tryRoundTrip_independent [OF assms(1), of ?p ?s ?s'] t t'
  have same: "thrown' = thrown" "atex' = atex" by simp_all
  show ?thesis
  proof (cases thrown)
    case None
    with t t' same show ?thesis by (simp add: processFile_def Let_def)
  next
    case (Some e)
    have "fst (onFailure w outD ?p f ?a opts e atex st1) =
          fst (onFailure w outD ?p f ?a opts' e atex st1')"
    proof (cases "extractDiagnostics (number_text w) e")
      case None
      then show ?thesis by (simp add: onFailure_def)
    next
      case (Some d)
      then show ?thesis by (simp add: copy_and_write_failures_keep_status [OF assms(2,3)])
    qed
    with Some t t' same show ?thesis by (simp add: processFile_def Let_def)
  qed
qed

lemma batch_loop_independent:
  assumes "\<And>tr tr' p. fs_readFile w tr p = fs_readFile w tr' p"
    and "\<And>tr. fs_mkdir w tr (path_join w outD ''failed_gp5'') = None"
    and "\<And>tr. fs_mkdir w tr (path_join w outD ''fail_atex'') = None"
  shows "fst (batch_loop w opts inDir outD n i fs rs ls st) =
           fst (batch_loop w opts' inDir outD n i fs rs ls st') \<and>
         fst (snd (batch_loop w opts inDir outD n i fs rs ls st)) =
           fst (snd (batch_loop w opts' inDir outD n i fs rs ls st'))"
proof (induction fs arbitrary: i rs ls st st')
  case Nil
  then show ?case by simp
next
  case (Cons f fs)
  let ?t = "''['' @ show_nat (i + 1) @ ''/'' @ show_nat n @ ''] '' @ f @ '' ... ''"
  obtain out st2 where pf: "processFile w inDir outD f opts (stdout_write ?t st) = (out, st2)"
    by (cases "processFile w inDir outD f opts (stdout_write ?t st)")
  obtain out' st2' where
    pf': "processFile w inDir outD f opts' (stdout_write ?t st') = (out', st2')"
    by (cases "processFile w inDir outD f opts' (stdout_write ?t st')")
  from processFile_independent [OF assms, of inDir f opts "stdout_write ?t st" opts'
      "stdout_write ?t st'"] pf pf'
  have same: "out' = out" by simp
  show ?case
  proof (cases out)
    case (Inl e)
    then show ?thesis using pf pf' same Cons.IH by (simp add: Let_def)
  next
    case (Inr res)
    then show ?thesis using pf pf' same Cons.IH by (simp add: Let_def)
  qed
qed

lemma dry_run_same_report:
  assumes "\<And>tr tr' p. fs_readFile w tr p = fs_readFile w tr' p"
    and "\<And>tr. fs_mkdir w tr (path_join w (path_resolve w (opt_out opts)) ''failed_gp5'') = None"
    and "\<And>tr. fs_mkdir w tr (path_join w (path_resolve w (opt_out opts)) ''fail_atex'') = None"
    and "fst (main w opts st) = Inr b"
    and "fst (main w (opts\<lparr>dryRun := True\<rparr>) st) = Inr b'"
  shows "b' = b"
proof -
  from main_Inr [OF assms(4)] obtain files ls st0 st3 where
    loop: "batch_loop w opts (path_resolve w (opt_in opts)) (path_resolve w (opt_out opts))
             (length (filter is_gp5 files)) 0 (filter is_gp5 files) [] [] st0
             = (results b, ls, st3)"
    and rd: "fs_readdir w (trace st @ [Mkdir (path_resolve w (opt_out opts))])
             (path_resolve w (opt_in opts)) = Inr files"
    and rest: "totalFiles b = length (filter is_gp5 files)"
      "passed b = length (filter (\<lambda>r. status r = ''passed'') (results b))"
      "failed b = length (filter (\<lambda>r. status r = ''failed'') (results b))"
    by blast
  from main_Inr [OF assms(5)] obtain files' ls' st0' st3' where
    loop': "batch_loop w (opts\<lparr>dryRun := True\<rparr>) (path_resolve w (opt_in opts))
             (path_resolve w (opt_out opts))
             (length (filter is_gp5 files')) 0 (filter is_gp5 files') [] [] st0'
             = (results b', ls', st3')"
    and rd': "fs_readdir w (trace st @ [Mkdir (path_resolve w (opt_out opts))])
             (path_resolve w (opt_in opts)) = Inr files'"
    and rest': "totalFiles b' = length (filter is_gp5 files')"
      "passed b' = length (filter (\<lambda>r. status r = ''passed'') (results b'))"
      "failed b' = length (filter (\<lambda>r. status r = ''failed'') (results b'))"
    by auto
  from rd rd' have files: "files' = files" by simp
  from batch_loop_independent [OF assms(1-3), of opts "path_resolve w (opt_in opts)"
      "length (filter is_gp5 files)" 0 "filter is_gp5 files" "[]" "[]" st0
      "opts\<lparr>dryRun := True\<rparr>" st0'] loop loop' files
  have res: "results b' = results b" by simp
  have g: "generatedAt b = now_iso w" "generatedAt b' = now_iso w"
    "report_inputDir b = path_resolve w (opt_in opts)"
    "report_inputDir b' = path_resolve w (opt_in opts)"
    "report_outDir b = path_resolve w (opt_out opts)"
    "report_outDir b' = path_resolve w (opt_out opts)"
    using assms(4,5)
    by (auto simp: main_def Let_def ensureDir_def writeFile_def
        split: option.splits prod.splits sum.splits)
  show ?thesis using res rest rest' files g by (simp add: batch.equality)
qed

text \<open>
  C8 asks the same report from a dry run and from a run with artifacts on every corpus
  with a failing file. When \<^verbatim>\<open>failed_gp5\<close> cannot be created, the dry run reports the
  two failing files as \<^verbatim>\<open>failed\<close> and the run with artifacts reports them as
  \<^verbatim>\<open>error\<close>.
\<close>

theorem dry_run_differs_when_directory_blocked:
  "map_sum id (map status \<circ> results)
       (fst (main (demo_world [''/w/out/failed_gp5'']) (demo_options True) start_state))
     = Inr [''passed'', ''failed'', ''failed''] \<and>
   map_sum id (map status \<circ> results)
       (fst (main (demo_world [''/w/out/failed_gp5'']) (demo_options False) start_state))
     = Inr [''passed'', ''error'', ''error'']"
  by (simp add: run_blocked run_blocked_dry)

end
